theory Spec2Isabelle
  imports Complex_Main "HOL-Library.Char_ord" "HOL-Library.List_Lexorder" "HOL-Library.Multiset"
begin

section \<open>Values and errors\<close>

text \<open>
  A Python float is a finite value, one of the two infinities, or NaN. Only the order of a
  float against a literal threshold is ever used, so a finite float is carried as the real
  number it denotes and a literal such as \<open>0.7\<close> denotes itself.
\<close>

datatype pyfloat = Fin real | PInf | NInf | NaN

text \<open>\<open>x < c\<close> and \<open>x > c\<close> for a float \<open>x\<close> and a finite literal \<open>c\<close>: every comparison
  with NaN is false.\<close>

fun flt :: "pyfloat \<Rightarrow> real \<Rightarrow> bool" where
  "flt (Fin a) c = (a < c)"
| "flt NInf c = True"
| "flt PInf c = False"
| "flt NaN c = False"

fun fgt :: "pyfloat \<Rightarrow> real \<Rightarrow> bool" where
  "fgt (Fin a) c = (a > c)"
| "fgt PInf c = True"
| "fgt NInf c = False"
| "fgt NaN c = False"

text \<open>A cell of a table row holds a number or a string.\<close>

datatype pyval = PNum pyfloat | PStr string

datatype error = KeyError string | TypeError | ValueError | LinAlgError

text \<open>A table row (a pandas Series, or a dict of \<open>to_dict\<close>): its columns in order, looked
  up by name.\<close>

type_synonym row = "(string \<times> pyval) list"

definition bindE :: "error + 'a \<Rightarrow> ('a \<Rightarrow> error + 'b) \<Rightarrow> error + 'b" where
  "bindE m f = (case m of Inl e \<Rightarrow> Inl e | Inr a \<Rightarrow> f a)"

text \<open>\<open>row[k]\<close>: a missing column raises \<open>KeyError\<close>.\<close>

definition getitem :: "row \<Rightarrow> string \<Rightarrow> error + pyval" where
  "getitem r k = (case map_of r k of None \<Rightarrow> Inl (KeyError k) | Some v \<Rightarrow> Inr v)"

text \<open>Ordering a string against a float raises \<open>TypeError\<close>.\<close>

fun py_lt :: "pyval \<Rightarrow> real \<Rightarrow> error + bool" where
  "py_lt (PNum x) c = Inr (flt x c)"
| "py_lt (PStr s) c = Inl TypeError"

fun py_gt :: "pyval \<Rightarrow> real \<Rightarrow> error + bool" where
  "py_gt (PNum x) c = Inr (fgt x c)"
| "py_gt (PStr s) c = Inl TypeError"

text \<open>\<open>a and b\<close>: the right operand is evaluated only when the left one is true.\<close>

definition py_and :: "error + bool \<Rightarrow> error + bool \<Rightarrow> error + bool" where
  "py_and a b = (case a of Inl e \<Rightarrow> Inl e | Inr t \<Rightarrow> (if t then b else Inr False))"

section \<open>The two classifiers\<close>

text \<open>\<open>dance_energy_category(value)\<close>, app.py lines 19-33.\<close>

definition dance_energy_category :: "pyval \<Rightarrow> error + string" where
  "dance_energy_category v =
     bindE (py_lt v 0.4) (\<lambda>c1.
       if c1 then Inr ''Low''
       else bindE (py_lt v 0.7) (\<lambda>c2.
         if c2 then Inr ''Medium'' else Inr ''High''))"

text \<open>\<open>map_mood(row)\<close>, app.py lines 36-55.\<close>

definition map_mood :: "row \<Rightarrow> error + string" where
  "map_mood r =
     bindE (py_and (bindE (getitem r ''valence'') (\<lambda>v. py_gt v 0.7))
                   (bindE (getitem r ''energy'') (\<lambda>v. py_gt v 0.7))) (\<lambda>c1.
       if c1 then Inr ''Happy''
       else bindE (py_and (bindE (getitem r ''tempo'') (\<lambda>v. py_lt v 90))
                          (bindE (getitem r ''energy'') (\<lambda>v. py_lt v 0.5))) (\<lambda>c2.
         if c2 then Inr ''Relaxing''
         else bindE (py_and (bindE (getitem r ''tempo'') (\<lambda>v. py_gt v 120))
                            (bindE (getitem r ''energy'') (\<lambda>v. py_gt v 0.7))) (\<lambda>c3.
           if c3 then Inr ''Workout''
           else bindE (py_and (bindE (getitem r ''danceability'') (\<lambda>v. py_gt v 0.7))
                              (bindE (getitem r ''energy'') (\<lambda>v. py_gt v 0.7))) (\<lambda>c4.
             if c4 then Inr ''Party'' else Inr ''Other''))))"

text \<open>The decision list of the mood rules over four floats, first match first.\<close>

definition mood_rules :: "pyfloat \<Rightarrow> pyfloat \<Rightarrow> pyfloat \<Rightarrow> pyfloat \<Rightarrow> string" where
  "mood_rules v e t d =
     (if fgt v 0.7 \<and> fgt e 0.7 then ''Happy''
      else if flt t 90 \<and> flt e 0.5 then ''Relaxing''
      else if fgt t 120 \<and> fgt e 0.7 then ''Workout''
      else if fgt d 0.7 \<and> fgt e 0.7 then ''Party''
      else ''Other'')"

text \<open>The thresholds of the categorizer over a finite value.\<close>

definition category_label :: "real \<Rightarrow> string" where
  "category_label x = (if x < 0.4 then ''Low'' else if x < 0.7 then ''Medium'' else ''High'')"

section \<open>The song table\<close>

text \<open>
  One row of the table \<open>songs\<close> that db\_convert.py writes, with the columns the application
  reads. The import drops every row with a missing value, so each column holds a value of
  its type.
\<close>

record song =
  track_name :: string
  artists :: string
  track_genre :: string
  popularity :: int
  danceability :: real
  energy :: real
  valence :: real
  tempo :: real
  acousticness :: real
  liveness :: real

type_synonym database = "song list"

text \<open>Python truthiness of the optional genre argument: \<open>None\<close> and the empty string are
  false.\<close>

fun truthy :: "string option \<Rightarrow> bool" where
  "truthy None = False"
| "truthy (Some g) = (g \<noteq> [])"

text \<open>
  \<open>db_create_dataframe(genre=None)\<close>, app.py lines 243-268. The statement is
  \<open>SELECT * FROM songs\<close>, extended by \<open>WHERE track_genre = ?\<close> only under \<open>if genre:\<close>. The
  connection is closed without a write, so the table is returned as it was.
\<close>

definition db_create_dataframe :: "string option \<Rightarrow> database \<Rightarrow> song list \<times> database" where
  "db_create_dataframe genre db =
     (if truthy genre
      then (case genre of
              Some g \<Rightarrow> (filter (\<lambda>s. track_genre s = g) db, db)
            | None \<Rightarrow> (db, db))
      else (db, db))"

text \<open>The row of a song as \<open>DataFrame.apply(..., axis=1)\<close> hands it to a function.\<close>

definition row_of :: "song \<Rightarrow> row" where
  "row_of s =
     [(''track_name'', PStr (track_name s)),
      (''artists'', PStr (artists s)),
      (''track_genre'', PStr (track_genre s)),
      (''popularity'', PNum (Fin (of_int (popularity s)))),
      (''danceability'', PNum (Fin (danceability s))),
      (''energy'', PNum (Fin (energy s))),
      (''valence'', PNum (Fin (valence s))),
      (''tempo'', PNum (Fin (tempo s))),
      (''acousticness'', PNum (Fin (acousticness s))),
      (''liveness'', PNum (Fin (liveness s)))]"

section \<open>The mood table\<close>

text \<open>Applying a function that may raise to every element, in order: the first error is
  the result.\<close>

fun mapE :: "('a \<Rightarrow> error + 'b) \<Rightarrow> 'a list \<Rightarrow> error + 'b list" where
  "mapE f [] = Inr []"
| "mapE f (x # xs) = bindE (f x) (\<lambda>y. bindE (mapE f xs) (\<lambda>ys. Inr (y # ys)))"

text \<open>\<open>row[k] = v\<close>: an existing column keeps its place, a new one goes last.\<close>

fun setitem :: "string \<Rightarrow> pyval \<Rightarrow> row \<Rightarrow> row" where
  "setitem k v [] = [(k, v)]"
| "setitem k v (c # r) = (if fst c = k then (k, v) # r else c # setitem k v r)"

text \<open>\<open>df[k] = values\<close>: the values are assigned row by row.\<close>

definition set_column :: "string \<Rightarrow> pyval list \<Rightarrow> row list \<Rightarrow> row list" where
  "set_column k vs df = map (\<lambda>(r, v). setitem k v r) (zip df vs)"

text \<open>\<open>df[k].apply(f)\<close>.\<close>

definition apply_column :: "string \<Rightarrow> (pyval \<Rightarrow> error + 'a) \<Rightarrow> row list \<Rightarrow> error + 'a list" where
  "apply_column k f df = mapE (\<lambda>r. bindE (getitem r k) f) df"

text \<open>\<open>df[[k1, ..., kn]]\<close> on one row.\<close>

definition select_columns :: "string list \<Rightarrow> row \<Rightarrow> error + row" where
  "select_columns ks r = mapE (\<lambda>k. bindE (getitem r k) (\<lambda>v. Inr (k, v))) ks"

text \<open>
  Lines 106-112 of \<open>submit_mood\<close>: the mood column is computed first, then the columns
  \<open>danceability\<close> and \<open>energy\<close> are overwritten by their categories, then the rows of the
  selected mood are kept and cut down to four columns.
\<close>

definition mood_table :: "string \<Rightarrow> row list \<Rightarrow> error + row list" where
  "mood_table mood df =
     bindE (mapE map_mood df) (\<lambda>moods.
       let df1 = set_column ''mood'' (map PStr moods) df in
       bindE (apply_column ''danceability'' dance_energy_category df1) (\<lambda>ds.
         let df2 = set_column ''danceability'' (map PStr ds) df1 in
         bindE (apply_column ''energy'' dance_energy_category df2) (\<lambda>es.
           let df3 = set_column ''energy'' (map PStr es) df2 in
           mapE (select_columns [''track_name'', ''artists'', ''danceability'', ''energy''])
                (filter (\<lambda>r. map_of r ''mood'' = Some (PStr mood)) df3))))"

type_synonym session = "string \<rightharpoonup> string"

datatype response = Redirect string | Render string string string "row list"

text \<open>
  \<open>submit_mood()\<close>, app.py lines 90-119, with the posted mood as an argument. The result is
  the response (or the exception that ends the request), the session and the table.
\<close>

definition submit_mood ::
  "string \<Rightarrow> session \<Rightarrow> database \<Rightarrow> (error + response) \<times> session \<times> database" where
  "submit_mood mood sess db =
     (let sess1 = sess(''mood'' \<mapsto> mood) in
      case sess1 ''genre'' of
        None \<Rightarrow> (Inr (Redirect ''home''), sess1, db)
      | Some g \<Rightarrow>
          (case db_create_dataframe (Some g) db of
             (df, db1) \<Rightarrow>
               (bindE (mood_table mood (map row_of df))
                  (\<lambda>songs. Inr (Render ''mood.html'' g mood songs)),
                sess1, db1)))"

section \<open>The genre popularity chart\<close>

text \<open>The arithmetic mean of a group's popularities, in exact arithmetic.\<close>

definition mean :: "int list \<Rightarrow> real" where
  "mean ps = real_of_int (sum_list ps) / real (length ps)"

definition group_mean :: "song list \<Rightarrow> string \<Rightarrow> real" where
  "group_mean df g = mean (map popularity (filter (\<lambda>s. track_genre s = g) df))"

text \<open>
  \<open>df.groupby("track_genre")["popularity"].mean()\<close>: \<open>groupby\<close> sorts the group keys
  (\<open>sort=True\<close> is its default), so the series is indexed by the distinct genres in
  ascending string order.
\<close>

definition groupby_mean :: "song list \<Rightarrow> (string \<times> real) list" where
  "groupby_mean df = map (\<lambda>g. (g, group_mean df g)) (sort (remdups (map track_genre df)))"

text \<open>
  The library routine that orders a series ascending by value is a parameter. The default
  kind of \<open>sort_values\<close> is quicksort, which promises a sorted rearrangement and nothing
  about equal values; a stable routine moreover keeps equal values in the order it found
  them.
\<close>

type_synonym sorter = "(string \<times> real) list \<Rightarrow> (string \<times> real) list"

definition is_sorter :: "sorter \<Rightarrow> bool" where
  "is_sorter srt = (\<forall>xs. sorted (map snd (srt xs)) \<and> mset (srt xs) = mset xs)"

definition is_stable :: "sorter \<Rightarrow> bool" where
  "is_stable srt = (\<forall>xs k. filter (\<lambda>x. snd x = k) (srt xs) = filter (\<lambda>x. snd x = k) xs)"

text \<open>\<open>sort_values(ascending=False)\<close>: pandas reverses the series, orders it ascending and
  reverses the result.\<close>

definition sort_values_desc :: "sorter \<Rightarrow> (string \<times> real) list \<Rightarrow> (string \<times> real) list" where
  "sort_values_desc srt xs = rev (srt (rev xs))"

text \<open>
  \<open>create_figure_genre_popularity()\<close>, app.py lines 134-161: the bar series handed to
  \<open>ax.bar\<close>, genre and height, and the table as the read left it.
\<close>

definition create_figure_genre_popularity ::
  "sorter \<Rightarrow> database \<Rightarrow> (string \<times> real) list \<times> database" where
  "create_figure_genre_popularity srt db =
     (case db_create_dataframe None db of
        (df, db1) \<Rightarrow> (take 10 (sort_values_desc srt (groupby_mean df)), db1))"

text \<open>The genres of a collection in the order of their first appearance.\<close>

fun first_appearance :: "string list \<Rightarrow> string list" where
  "first_appearance [] = []"
| "first_appearance (g # gs) = g # first_appearance (filter (\<lambda>h. h \<noteq> g) gs)"

text \<open>
  The bar series as the specification words it: the distinct genres in first-appearance
  order, sorted stably by mean popularity descending, cut to ten.
\<close>

definition spec_genre_popularity :: "song list \<Rightarrow> (string \<times> real) list" where
  "spec_genre_popularity df =
     take 10 (sort_values_desc (sort_key snd)
       (map (\<lambda>g. (g, group_mean df g)) (first_appearance (map track_genre df))))"

text \<open>Rank order of two bars: higher mean first, equal means by ascending genre name.\<close>

definition ranks_before :: "string \<times> real \<Rightarrow> string \<times> real \<Rightarrow> bool" where
  "ranks_before a b = (snd a > snd b \<or> (snd a = snd b \<and> fst a < fst b))"

section \<open>The danceability prediction chart\<close>








section \<open>Derived rows and sample data\<close>

text \<open>The mood of a song from its raw features, and the row of a song after each of the
  three column assignments of \<open>mood_table\<close>.\<close>

definition song_mood :: "song \<Rightarrow> string" where
  "song_mood s =
     mood_rules (Fin (valence s)) (Fin (energy s)) (Fin (tempo s)) (Fin (danceability s))"

definition row1 :: "song \<Rightarrow> row" where
  "row1 s = setitem ''mood'' (PStr (song_mood s)) (row_of s)"

definition row2 :: "song \<Rightarrow> row" where
  "row2 s = setitem ''danceability'' (PStr (category_label (danceability s))) (row1 s)"

definition row3 :: "song \<Rightarrow> row" where
  "row3 s = setitem ''energy'' (PStr (category_label (energy s))) (row2 s)"

definition shown_row :: "song \<Rightarrow> row" where
  "shown_row s =
     [(''track_name'', PStr (track_name s)),
      (''artists'', PStr (artists s)),
      (''danceability'', PStr (category_label (danceability s))),
      (''energy'', PStr (category_label (energy s)))]"

text \<open>A song of a given genre and popularity, and two solvers, for evaluating the
  operations on concrete tables: one returns the model that predicts the mean of the
  targets (the intercept-only fit), the other raises.\<close>

definition sample_song :: "string \<Rightarrow> int \<Rightarrow> song" where
  "sample_song g p =
     \<lparr> track_name = ''t'', artists = ''a'', track_genre = g, popularity = p,
       danceability = 0.5, energy = 0.5, valence = 0.5, tempo = 100,
       acousticness = 0.5, liveness = 0.5 \<rparr>"



section \<open>Properties of the classifiers\<close>

lemma map_mood_numeric:
  assumes "map_of r ''valence'' = Some (PNum v)" and "map_of r ''energy'' = Some (PNum e)"
    and "map_of r ''tempo'' = Some (PNum t)" and "map_of r ''danceability'' = Some (PNum d)"
  shows "map_mood r = Inr (mood_rules v e t d)"
  using assms by (simp add: map_mood_def mood_rules_def bindE_def getitem_def py_and_def)

lemma category_finite: "dance_energy_category (PNum (Fin x)) = Inr (category_label x)"
  by (simp add: dance_energy_category_def category_label_def bindE_def)

text \<open>
  C1. For a row whose four features are finite numbers, \<open>map_mood\<close> returns the label of the
  first rule of the ordered list that matches: valence and energy above 0.7 give Happy,
  tempo below 90 and energy below 0.5 give Relaxing, tempo above 120 and energy above 0.7
  give Workout, danceability and energy above 0.7 give Party, anything else Other. The
  comparisons are strict: a row matching rules 1 and 3 is Happy, and a row with valence or
  energy exactly 0.7 is never Happy.
\<close>

theorem map_mood_first_match:
  assumes "map_of r ''valence'' = Some (PNum (Fin v))"
    and "map_of r ''energy'' = Some (PNum (Fin e))"
    and "map_of r ''tempo'' = Some (PNum (Fin t))"
    and "map_of r ''danceability'' = Some (PNum (Fin d))"
  shows "map_mood r =
           Inr (if v > 0.7 \<and> e > 0.7 then ''Happy''
                else if t < 90 \<and> e < 0.5 then ''Relaxing''
                else if t > 120 \<and> e > 0.7 then ''Workout''
                else if d > 0.7 \<and> e > 0.7 then ''Party''
                else ''Other'')
         \<and> (v > 0.7 \<and> e > 0.7 \<and> t > 120 \<longrightarrow> map_mood r = Inr ''Happy'')
         \<and> (v = 0.7 \<or> e = 0.7 \<longrightarrow> map_mood r \<noteq> Inr ''Happy'')"
  using map_mood_numeric [OF assms] by (simp add: mood_rules_def)

theorem map_mood_first_match_witness:
  "map_mood [(''valence'', PNum (Fin 0.8)), (''energy'', PNum (Fin 0.8)),
             (''tempo'', PNum (Fin 130)), (''danceability'', PNum (Fin 0.2))] = Inr ''Happy''
   \<and> map_mood [(''valence'', PNum (Fin 0.7)), (''energy'', PNum (Fin 0.8)),
             (''tempo'', PNum (Fin 130)), (''danceability'', PNum (Fin 0.2))] = Inr ''Workout''"
  using map_mood_first_match [of "[(''valence'', PNum (Fin 0.8)), (''energy'', PNum (Fin 0.8)),
             (''tempo'', PNum (Fin 130)), (''danceability'', PNum (Fin 0.2))]" "0.8" "0.8" 130 "0.2"]
    map_mood_first_match [of "[(''valence'', PNum (Fin 0.7)), (''energy'', PNum (Fin 0.8)),
             (''tempo'', PNum (Fin 130)), (''danceability'', PNum (Fin 0.2))]" "0.7" "0.8" 130 "0.2"]
  by simp

text \<open>
  C2. For every real \<open>v\<close>, \<open>dance_energy_category\<close> returns Low below 0.4, Medium from 0.4
  up to but not including 0.7, and High from 0.7 on; 0.4 itself is Medium and 0.7 itself is
  High. No value is rejected, inside or outside the unit interval.
\<close>

theorem categorize_thresholds:
  "(v < 0.4 \<longrightarrow> dance_energy_category (PNum (Fin v)) = Inr ''Low'')
   \<and> (0.4 \<le> v \<and> v < 0.7 \<longrightarrow> dance_energy_category (PNum (Fin v)) = Inr ''Medium'')
   \<and> (0.7 \<le> v \<longrightarrow> dance_energy_category (PNum (Fin v)) = Inr ''High'')
   \<and> dance_energy_category (PNum (Fin 0.4)) = Inr ''Medium''
   \<and> dance_energy_category (PNum (Fin 0.7)) = Inr ''High''"
  by (simp add: dance_energy_category_def bindE_def)

theorem categorize_thresholds_witness:
  "dance_energy_category (PNum (Fin (-3))) = Inr ''Low''
   \<and> dance_energy_category (PNum (Fin 0.5)) = Inr ''Medium''
   \<and> dance_energy_category (PNum (Fin 12)) = Inr ''High''"
  using categorize_thresholds [of "-3"] categorize_thresholds [of "0.5"]
    categorize_thresholds [of 12]
  by simp

text \<open>
  C10. On NaN the categorizer returns High, and a row whose four compared features are NaN
  gets the mood Other. On any float, NaN and the infinities included, the categorizer
  returns one of its three labels, and on any row with four float features the mood
  classifier returns one of its five labels: neither raises.
\<close>

theorem classifiers_on_nan:
  "dance_energy_category (PNum NaN) = Inr ''High''
   \<and> (map_of r ''valence'' = Some (PNum NaN) \<and> map_of r ''energy'' = Some (PNum NaN)
        \<and> map_of r ''tempo'' = Some (PNum NaN) \<and> map_of r ''danceability'' = Some (PNum NaN)
      \<longrightarrow> map_mood r = Inr ''Other'')
   \<and> (\<exists>c. dance_energy_category (PNum x) = Inr c \<and> c \<in> {''Low'', ''Medium'', ''High''})
   \<and> (map_of r ''valence'' = Some (PNum v) \<and> map_of r ''energy'' = Some (PNum e)
        \<and> map_of r ''tempo'' = Some (PNum t) \<and> map_of r ''danceability'' = Some (PNum d)
      \<longrightarrow> (\<exists>m. map_mood r = Inr m
             \<and> m \<in> {''Happy'', ''Relaxing'', ''Workout'', ''Party'', ''Other''}))"
  by (auto simp add: dance_energy_category_def bindE_def map_mood_numeric mood_rules_def)

theorem classifiers_on_nan_witness:
  "map_mood [(''valence'', PNum NaN), (''energy'', PNum NaN),
             (''tempo'', PNum NaN), (''danceability'', PNum NaN)] = Inr ''Other''"
  using classifiers_on_nan [of "[(''valence'', PNum NaN), (''energy'', PNum NaN),
             (''tempo'', PNum NaN), (''danceability'', PNum NaN)]"]
  by simp

section \<open>Properties of the song table\<close>

text \<open>For a genre that is not the empty string the query is the exact match on
  \<open>track_genre\<close>, and an unknown genre gives the empty collection.\<close>

lemma db_create_dataframe_genre:
  "g \<noteq> [] \<Longrightarrow> fst (db_create_dataframe (Some g) db) = filter (\<lambda>s. track_genre s = g) db"
  by (simp add: db_create_dataframe_def)

text \<open>
  C4. The query for the songs of a genre is to return exactly the rows whose \<open>track_genre\<close>
  equals the genre, and no row for the empty string. The guard \<open>if genre:\<close> takes the
  empty string for no genre at all, although the comment beside it reads "if the genre is
  specified (i.e != None)": on a table holding one rock song the query for the empty genre
  returns that song.
\<close>

theorem db_create_dataframe_empty_genre:
  "fst (db_create_dataframe (Some '''') [sample_song ''rock'' 50]) = [sample_song ''rock'' 50]"
  by (simp add: db_create_dataframe_def)

section \<open>Properties of the genre popularity chart\<close>

lemma is_sorter_sort_key: "is_sorter (sort_key snd)"
  by (simp add: is_sorter_def)

lemma is_stable_sort_key: "is_stable (sort_key snd)"
  by (simp add: is_stable_def sort_key_stable)

lemma sorter_Nil: "is_sorter srt \<Longrightarrow> srt [] = []"
proof -
  assume "is_sorter srt"
  then have "mset (srt []) = mset []" unfolding is_sorter_def by blast
  then show ?thesis by simp
qed

lemma sort_values_desc_mset: "is_sorter srt \<Longrightarrow> mset (sort_values_desc srt xs) = mset xs"
  by (simp add: sort_values_desc_def is_sorter_def)

lemma sort_values_desc_set: "is_sorter srt \<Longrightarrow> set (sort_values_desc srt xs) = set xs"
  using sort_values_desc_mset [of srt xs] by (metis mset_eq_setD)

lemma sort_values_desc_length:
  "is_sorter srt \<Longrightarrow> length (sort_values_desc srt xs) = length xs"
  using sort_values_desc_mset [of srt xs] by (metis mset_eq_length)

lemma sort_values_desc_distinct:
  assumes "is_sorter srt" and "distinct (map fst xs)"
  shows "distinct (map fst (sort_values_desc srt xs))"
proof -
  have "mset (map fst (sort_values_desc srt xs)) = mset (map fst xs)"
    using sort_values_desc_mset [OF assms(1), of xs] by (metis mset_map)
  then show ?thesis using assms(2) by (metis mset_eq_imp_distinct_iff)
qed

lemma sort_values_desc_sorted:
  assumes "is_sorter srt"
  shows "sorted_wrt (\<lambda>a b. snd b \<le> snd a) (sort_values_desc srt xs)"
proof -
  have "sorted (map snd (srt (rev xs)))"
    using assms unfolding is_sorter_def by blast
  then have "sorted_wrt (\<lambda>a b. snd a \<le> snd b) (srt (rev xs))"
    by (simp add: sorted_map)
  then show ?thesis
    by (simp add: sort_values_desc_def sorted_wrt_rev)
qed

lemma sorted_wrt_within_groups:
  assumes "sorted_wrt A zs" and "\<And>k. sorted_wrt B (filter (\<lambda>x. f x = k) zs)"
  shows "sorted_wrt (\<lambda>a b. A a b \<and> (f a = f b \<longrightarrow> B a b)) zs"
  using assms
proof (induction zs)
  case Nil
  then show ?case by simp
next
  case (Cons z zs)
  have tail: "sorted_wrt B (filter (\<lambda>x. f x = k) zs)" for k
    using Cons.prems(2) [of k] by (cases "f z = k") simp_all
  have ih: "sorted_wrt (\<lambda>a b. A a b \<and> (f a = f b \<longrightarrow> B a b)) zs"
    using Cons.IH Cons.prems(1) tail by simp
  have "A z w \<and> (f z = f w \<longrightarrow> B z w)" if w: "w \<in> set zs" for w
  proof
    show "A z w" using Cons.prems(1) w by simp
    show "f z = f w \<longrightarrow> B z w"
    proof
      assume "f z = f w"
      then have "w \<in> set (filter (\<lambda>x. f x = f z) zs)" using w by simp
      then show "B z w" using Cons.prems(2) [of "f z"] by simp
    qed
  qed
  then show ?case using ih by simp
qed

lemma sort_values_desc_ranks:
  assumes "is_sorter srt" and "is_stable srt" and "sorted_wrt (\<lambda>a b. fst a < fst b) xs"
  shows "sorted_wrt ranks_before (sort_values_desc srt xs)"
proof -
  let ?zs = "srt (rev xs)"
  have a: "sorted_wrt (\<lambda>a b. snd a \<le> snd b) ?zs"
    using assms(1) unfolding is_sorter_def by (simp add: sorted_map)
  have b: "sorted_wrt (\<lambda>a b. fst b < fst a) (filter (\<lambda>x. snd x = k) ?zs)" for k
  proof -
    have "filter (\<lambda>x. snd x = k) ?zs = filter (\<lambda>x. snd x = k) (rev xs)"
      using assms(2) unfolding is_stable_def by blast
    moreover have "sorted_wrt (\<lambda>a b. fst b < fst a) (rev xs)"
      using assms(3) by (simp add: sorted_wrt_rev)
    ultimately show ?thesis by (simp add: sorted_wrt_filter)
  qed
  have "sorted_wrt (\<lambda>a b. snd a \<le> snd b \<and> (snd a = snd b \<longrightarrow> fst b < fst a)) ?zs"
    using a b by (rule sorted_wrt_within_groups)
  then have "sorted_wrt (\<lambda>a b. ranks_before b a) ?zs"
    by (rule sorted_wrt_mono_rel [rotated]) (auto simp add: ranks_before_def)
  then show ?thesis
    by (simp add: sort_values_desc_def sorted_wrt_rev)
qed

lemma groupby_mean_keys: "sorted_wrt (\<lambda>a b. fst a < fst b) (groupby_mean df)"
proof -
  have "sorted_wrt (<) (sort (remdups (map track_genre df)))"
    by (simp add: strict_sorted_iff)
  then show ?thesis
    by (simp add: groupby_mean_def sorted_wrt_map)
qed

lemma groupby_mean_distinct: "distinct (map fst (groupby_mean df))"
  by (simp add: groupby_mean_def comp_def)

lemma groupby_mean_set:
  "set (groupby_mean df) = (\<lambda>g. (g, group_mean df g)) ` track_genre ` set df"
  by (simp add: groupby_mean_def)

lemma groupby_mean_length: "length (groupby_mean df) = card (track_genre ` set df)"
proof -
  have "length (groupby_mean df) = length (remdups (map track_genre df))"
    by (simp add: groupby_mean_def)
  also have "\<dots> = card (set (map track_genre df))"
    by (simp only: length_remdups_card_conv)
  finally show ?thesis by simp
qed

lemma take_ranks_rest:
  assumes "sorted_wrt R xs" and "b \<in> set (take n xs)" and "c \<in> set xs"
    and "c \<notin> set (take n xs)"
  shows "R b c"
proof -
  have "c \<in> set (drop n xs)"
    using assms(3,4) by (metis Un_iff append_take_drop_id set_append)
  moreover have "sorted_wrt R (take n xs @ drop n xs)"
    using assms(1) by simp
  ultimately show ?thesis
    using assms(2) unfolding sorted_wrt_append by blast
qed

lemma genre_popularity_fst:
  "fst (create_figure_genre_popularity srt db) = take 10 (sort_values_desc srt (groupby_mean db))"
  by (simp add: create_figure_genre_popularity_def db_create_dataframe_def)

text \<open>
  C3, amended. For any routine that sorts, the bar series has as many bars as there are
  distinct genres, ten at most; the bars run by mean popularity descending and carry
  distinct genres of the collection, each with the mean popularity of its genre as height;
  no genre left out has a higher mean than a bar shown. When the routine is stable, bars of
  equal mean run by ascending genre name, the order in which \<open>groupby\<close> delivers the groups.
\<close>

theorem genre_popularity_ranking:
  assumes "is_sorter srt"
  shows "length (fst (create_figure_genre_popularity srt db))
           = min 10 (card (track_genre ` set db))
   \<and> sorted_wrt (\<lambda>a b. snd a \<ge> snd b) (fst (create_figure_genre_popularity srt db))
   \<and> distinct (map fst (fst (create_figure_genre_popularity srt db)))
   \<and> (\<forall>b \<in> set (fst (create_figure_genre_popularity srt db)).
         fst b \<in> track_genre ` set db \<and> snd b = group_mean db (fst b))
   \<and> (\<forall>g \<in> track_genre ` set db.
         g \<notin> fst ` set (fst (create_figure_genre_popularity srt db)) \<longrightarrow>
         (\<forall>b \<in> set (fst (create_figure_genre_popularity srt db)). group_mean db g \<le> snd b))
   \<and> (is_stable srt \<longrightarrow>
         sorted_wrt (\<lambda>a b. snd a > snd b \<or> (snd a = snd b \<and> fst a < fst b))
           (fst (create_figure_genre_popularity srt db)))"
proof -
  define L where "L = sort_values_desc srt (groupby_mean db)"
  have out: "fst (create_figure_genre_popularity srt db) = take 10 L"
    by (simp add: genre_popularity_fst L_def)
  have srt: "sorted_wrt (\<lambda>a b. snd b \<le> snd a) L"
    unfolding L_def using assms by (rule sort_values_desc_sorted)
  have setL: "set L = (\<lambda>g. (g, group_mean db g)) ` track_genre ` set db"
    by (simp add: L_def sort_values_desc_set [OF assms] groupby_mean_set)
  have lenL: "length L = card (track_genre ` set db)"
    by (simp add: L_def sort_values_desc_length [OF assms] groupby_mean_length)
  have disL: "distinct (map fst L)"
    unfolding L_def using assms groupby_mean_distinct by (rule sort_values_desc_distinct)
  have c1: "length (take 10 L) = min 10 (card (track_genre ` set db))"
    by (simp add: lenL min.commute)
  have c2: "sorted_wrt (\<lambda>a b. snd a \<ge> snd b) (take 10 L)"
    using srt by (rule sorted_wrt_take)
  have c3: "distinct (map fst (take 10 L))"
    using disL by (simp add: take_map [symmetric])
  have c4: "\<forall>b \<in> set (take 10 L).
              fst b \<in> track_genre ` set db \<and> snd b = group_mean db (fst b)"
  proof
    fix b assume "b \<in> set (take 10 L)"
    then have "b \<in> set L" by (rule in_set_takeD)
    then show "fst b \<in> track_genre ` set db \<and> snd b = group_mean db (fst b)"
      unfolding setL by auto
  qed
  have c5: "\<forall>g \<in> track_genre ` set db. g \<notin> fst ` set (take 10 L) \<longrightarrow>
              (\<forall>b \<in> set (take 10 L). group_mean db g \<le> snd b)"
  proof (intro ballI impI)
    fix g b
    assume g: "g \<in> track_genre ` set db" and out: "g \<notin> fst ` set (take 10 L)"
      and b: "b \<in> set (take 10 L)"
    have "(g, group_mean db g) \<in> set L" using g unfolding setL by blast
    moreover have "(g, group_mean db g) \<notin> set (take 10 L)" using out by force
    ultimately have "snd (g, group_mean db g) \<le> snd b"
      using take_ranks_rest [OF srt b] by blast
    then show "group_mean db g \<le> snd b" by simp
  qed
  have c6: "is_stable srt \<longrightarrow>
              sorted_wrt (\<lambda>a b. snd a > snd b \<or> (snd a = snd b \<and> fst a < fst b)) (take 10 L)"
  proof
    assume st: "is_stable srt"
    have "sorted_wrt ranks_before L"
      unfolding L_def using assms st groupby_mean_keys by (rule sort_values_desc_ranks)
    then have "sorted_wrt ranks_before (take 10 L)" by (rule sorted_wrt_take)
    then show "sorted_wrt (\<lambda>a b. snd a > snd b \<or> (snd a = snd b \<and> fst a < fst b)) (take 10 L)"
      by (simp add: ranks_before_def [abs_def])
  qed
  show ?thesis
    unfolding out using c1 c2 c3 c4 c5 c6 by blast
qed

theorem genre_popularity_ranking_witness:
  "fst (create_figure_genre_popularity (sort_key snd)
          [sample_song ''rock'' 10, sample_song ''jazz'' 90, sample_song ''rock'' 20,
           sample_song ''folk'' 50, sample_song ''blues'' 50])
     = [(''jazz'', 90), (''blues'', 50), (''folk'', 50), (''rock'', 15)]
   \<and> sorted_wrt (\<lambda>a b. snd a > snd b \<or> (snd a = snd b \<and> fst a < fst b))
        (fst (create_figure_genre_popularity (sort_key snd)
          [sample_song ''rock'' 10, sample_song ''jazz'' 90, sample_song ''rock'' 20,
           sample_song ''folk'' 50, sample_song ''blues'' 50]))"
  using genre_popularity_ranking [OF is_sorter_sort_key,
      of "[sample_song ''rock'' 10, sample_song ''jazz'' 90, sample_song ''rock'' 20,
           sample_song ''folk'' 50, sample_song ''blues'' 50]"]
    is_stable_sort_key
  by (simp add: genre_popularity_fst sort_values_desc_def groupby_mean_def group_mean_def
      mean_def sample_song_def)

text \<open>
  Equal means are not shown in the order of first appearance: with a rock song before a
  jazz song of the same popularity and a stable sort, the chart shows jazz before rock,
  where the ordering by first appearance shows rock before jazz.
\<close>

theorem genre_popularity_ties_counterexample:
  "fst (create_figure_genre_popularity (sort_key snd)
          [sample_song ''rock'' 50, sample_song ''jazz'' 50])
     = [(''jazz'', 50), (''rock'', 50)]
   \<and> spec_genre_popularity [sample_song ''rock'' 50, sample_song ''jazz'' 50]
     = [(''rock'', 50), (''jazz'', 50)]"
  by (simp add: genre_popularity_fst spec_genre_popularity_def sort_values_desc_def
      groupby_mean_def group_mean_def mean_def sample_song_def)

text \<open>
  C7. On an empty table the genre popularity chart is built and has no bar.
\<close>

theorem genre_popularity_empty:
  assumes "is_sorter srt"
  shows "fst (create_figure_genre_popularity srt []) = []"
  by (simp add: genre_popularity_fst sort_values_desc_def groupby_mean_def
      sorter_Nil [OF assms])

theorem genre_popularity_empty_witness:
  "fst (create_figure_genre_popularity (sort_key snd) []) = []"
  using genre_popularity_empty [OF is_sorter_sort_key] by simp

section \<open>Properties of the mood table\<close>

lemma mapE_map:
  "(\<And>x. x \<in> set xs \<Longrightarrow> f (g x) = Inr (h x)) \<Longrightarrow> mapE f (map g xs) = Inr (map h xs)"
  by (induction xs) (simp_all add: bindE_def)

lemma map_mood_row_of: "map_mood (row_of s) = Inr (song_mood s)"
  unfolding song_mood_def by (rule map_mood_numeric) (simp_all add: row_of_def)

lemma set_column_map:
  "set_column k (map v xs) (map g xs) = map (\<lambda>x. setitem k (v x) (g x)) xs"
  by (induction xs) (simp_all add: set_column_def)

lemma apply_column_map:
  "(\<And>x. x \<in> set xs \<Longrightarrow> bindE (getitem (g x) k) f = Inr (h x))
     \<Longrightarrow> apply_column k f (map g xs) = Inr (map h xs)"
  unfolding apply_column_def by (rule mapE_map) simp

lemma row1_dance:
  "bindE (getitem (row1 s) ''danceability'') dance_energy_category
     = Inr (category_label (danceability s))"
  by (simp add: row1_def row_of_def getitem_def bindE_def category_finite)

lemma row2_energy:
  "bindE (getitem (row2 s) ''energy'') dance_energy_category
     = Inr (category_label (energy s))"
  by (simp add: row2_def row1_def row_of_def getitem_def bindE_def category_finite)

lemma row3_mood: "map_of (row3 s) ''mood'' = Some (PStr (song_mood s))"
  by (simp add: row3_def row2_def row1_def row_of_def)

lemma row3_select:
  "select_columns [''track_name'', ''artists'', ''danceability'', ''energy''] (row3 s)
     = Inr (shown_row s)"
  by (simp add: row3_def row2_def row1_def row_of_def select_columns_def getitem_def
      bindE_def shown_row_def)

lemma mood_table_rows:
  "mood_table mood (map row_of df)
     = Inr (map shown_row (filter (\<lambda>s. song_mood s = mood) df))"
proof -
  have m: "mapE map_mood (map row_of df) = Inr (map song_mood df)"
    by (rule mapE_map) (simp add: map_mood_row_of)
  have d1: "set_column ''mood'' (map PStr (map song_mood df)) (map row_of df) = map row1 df"
    using set_column_map [of "''mood''" "\<lambda>s. PStr (song_mood s)" df row_of]
    by (simp add: row1_def comp_def)
  have a1: "apply_column ''danceability'' dance_energy_category (map row1 df)
              = Inr (map (\<lambda>s. category_label (danceability s)) df)"
    by (rule apply_column_map) (simp add: row1_dance)
  have d2: "set_column ''danceability''
              (map PStr (map (\<lambda>s. category_label (danceability s)) df)) (map row1 df)
              = map row2 df"
    using set_column_map [of "''danceability''" "\<lambda>s. PStr (category_label (danceability s))"
        df row1]
    by (simp add: row2_def comp_def)
  have a2: "apply_column ''energy'' dance_energy_category (map row2 df)
              = Inr (map (\<lambda>s. category_label (energy s)) df)"
    by (rule apply_column_map) (simp add: row2_energy)
  have d3: "set_column ''energy''
              (map PStr (map (\<lambda>s. category_label (energy s)) df)) (map row2 df)
              = map row3 df"
    using set_column_map [of "''energy''" "\<lambda>s. PStr (category_label (energy s))" df row2]
    by (simp add: row3_def comp_def)
  have f: "filter (\<lambda>r. map_of r ''mood'' = Some (PStr mood)) (map row3 df)
             = map row3 (filter (\<lambda>s. song_mood s = mood) df)"
    by (simp add: filter_map comp_def row3_mood)
  have s: "mapE (select_columns [''track_name'', ''artists'', ''danceability'', ''energy''])
             (map row3 (filter (\<lambda>s. song_mood s = mood) df))
             = Inr (map shown_row (filter (\<lambda>s. song_mood s = mood) df))"
    by (rule mapE_map) (simp add: row3_select)
  show ?thesis
    by (simp only: mood_table_def m bindE_def sum.case Let_def d1 a1 d2 a2 d3 f s)
qed

text \<open>
  C9. With a genre in the session, \<open>submit_mood\<close> renders one row for each song of the genre
  whose mood, computed by \<open>map_mood\<close> on the song's raw row, is the selected one, in table
  order; the row shows the song's name and artists and, as danceability and energy, the
  categories of that same song's raw danceability and energy. So the mood is taken from
  the numbers before the two columns are overwritten, and every label stays with its row.
\<close>

theorem submit_mood_rows_aligned:
  assumes "sess ''genre'' = Some g"
  shows "fst (submit_mood mood sess db) =
           Inr (Render ''mood.html'' g mood
             (map (\<lambda>s. [(''track_name'', PStr (track_name s)),
                         (''artists'', PStr (artists s)),
                         (''danceability'', PStr (category_label (danceability s))),
                         (''energy'', PStr (category_label (energy s)))])
                (filter (\<lambda>s. map_mood (row_of s) = Inr mood)
                   (fst (db_create_dataframe (Some g) db)))))
         \<and> (\<forall>x. dance_energy_category (PNum (Fin x)) = Inr (category_label x))"
proof -
  have "shown_row = (\<lambda>s. [(''track_name'', PStr (track_name s)),
                         (''artists'', PStr (artists s)),
                         (''danceability'', PStr (category_label (danceability s))),
                         (''energy'', PStr (category_label (energy s)))])"
    by (rule ext) (simp add: shown_row_def)
  then show ?thesis
    using assms
    by (simp add: submit_mood_def mood_table_rows map_mood_row_of category_finite bindE_def
        split: prod.splits)
qed

theorem submit_mood_rows_aligned_witness:
  "fst (submit_mood ''Party'' [''genre'' \<mapsto> ''rock'']
          [sample_song ''rock'' 50,
           (sample_song ''rock'' 60) \<lparr> danceability := 0.9, energy := 0.8 \<rparr>,
           (sample_song ''jazz'' 70) \<lparr> danceability := 0.9, energy := 0.8 \<rparr>])
     = Inr (Render ''mood.html'' ''rock'' ''Party''
         [[(''track_name'', PStr ''t''), (''artists'', PStr ''a''),
           (''danceability'', PStr ''High''), (''energy'', PStr ''High'')]])"
  using submit_mood_rows_aligned [of "[''genre'' \<mapsto> ''rock'']" "''rock''" "''Party''"
      "[sample_song ''rock'' 50,
        (sample_song ''rock'' 60) \<lparr> danceability := 0.9, energy := 0.8 \<rparr>,
        (sample_song ''jazz'' 70) \<lparr> danceability := 0.9, energy := 0.8 \<rparr>]"]
  by (simp add: db_create_dataframe_def sample_song_def map_mood_row_of song_mood_def
      mood_rules_def category_label_def)

section \<open>Properties of the danceability prediction chart\<close>







end
